theory Spec2Isabelle
  imports Main
begin

section \<open>Data model of the evaluation router\<close>

text \<open>
  The module \<^verbatim>\<open>agenta_backend/routers/evaluation_router.py\<close> is a set of nine HTTP
  handlers. Each one reads the request, asks collaborators that live in other modules
  (the database layer, the evaluation service, the permission checker, the task queue)
  and turns the outcome into a response or an \<^verbatim>\<open>HTTPException\<close>.

  Values that the router only passes through (scenarios, aggregated results, the
  pydantic form of an evaluation) are kept as opaque text.
\<close>

type_synonym json = string

text \<open>\<^verbatim>\<open>request.state\<close>: the two attributes the handlers read.\<close>

record request_state =
  user_id :: string
  project_id :: string

record app_db =
  app_ident :: string

text \<open>An evaluation row; \<open>ident\<close> is its \<^verbatim>\<open>id\<close> attribute.\<close>

record evaluation_db =
  ident :: string
  status :: json
  aggregated_results :: "json list"

text \<open>The payload \<^verbatim>\<open>NewEvaluation\<close>, with the fields \<^verbatim>\<open>create_evaluation\<close> reads.\<close>

record new_evaluation =
  app_id :: string
  variant_ids :: "string list"
  evaluators_configs :: "string list"
  testset_id :: string
  rate_limit :: "(string \<times> int) list"
  lm_providers_keys :: "(string \<times> string) list option"

text \<open>The payload \<^verbatim>\<open>DeleteEvaluation\<close>.\<close>

record delete_evaluation =
  evaluations_ids :: "string list"

text \<open>The keyword arguments of one \<^verbatim>\<open>evaluate.delay(...)\<close>.\<close>

record evaluate_job =
  job_app_id :: string
  job_project_id :: string
  job_variant_id :: string
  job_evaluators_config_ids :: "string list"
  job_testset_id :: string
  job_evaluation_id :: string
  job_rate_limit_config :: "(string \<times> int) list"
  job_lm_providers_keys :: "(string \<times> string) list option"

datatype permission = VIEW_EVALUATION | CREATE_EVALUATION | DELETE_EVALUATION

text \<open>
  What \<^verbatim>\<open>check_action_access\<close> is asked about: the handlers pass either
  \<^verbatim>\<open>project_id=\<close>, or \<^verbatim>\<open>object=\<close> (an app or an evaluation, possibly \<^verbatim>\<open>None\<close>), or
  \<^verbatim>\<open>object_id=\<close> with \<^verbatim>\<open>object_type=\<close>.
\<close>

datatype access_target =
    Project string
  | Object_app "app_db option"
  | Object_evaluation "evaluation_db option"
  | Object_ref string string

text \<open>
  Exceptions. \<open>HTTPException\<close> is FastAPI's, with its \<^verbatim>\<open>status_code\<close> and
  \<^verbatim>\<open>detail\<close>; the next three are the builtins, carrying their \<^verbatim>\<open>str\<close>; \<open>Exception\<close>
  is any other subclass of \<^verbatim>\<open>Exception\<close> that a collaborator raises, with its
  \<^verbatim>\<open>status_code\<close> attribute when it has one and its \<^verbatim>\<open>str\<close>.
  Only instances of \<^verbatim>\<open>Exception\<close> are modelled: every handler catches exactly those.
\<close>

datatype exn =
    HTTPException nat string
  | KeyError string
  | IndexError string
  | AttributeError string
  | Exception "nat option" string

text \<open>Response objects a handler builds itself: \<^verbatim>\<open>JSONResponse({"detail": d}, status_code=n)\<close>
  and \<^verbatim>\<open>Response(status_code=n)\<close>.\<close>

datatype http_obj =
    JSONResponse string nat
  | Response nat

text \<open>The values the handlers return as plain data, one constructor per handler.\<close>

datatype content =
    Ids "string list"
  | Evaluations "evaluation_db list"
  | Status json
  | Results "json list" string
  | Scenarios "json list"
  | Evaluation_list "json list"
  | Evaluation json
  | Comparison json

datatype ret = Plain content | Obj http_obj

text \<open>Every call to a collaborator, with its arguments.\<close>

datatype call =
    CheckActionAccess string access_target permission
  | FetchEvaluationsByResource string string "string list option"
  | FetchAppById string string
  | CheckAiCritiqueInputs "string list" "(string \<times> string) list option"
  | CreateNewEvaluation string string string string
  | EvaluateDelay evaluate_job
  | UpdateLastModifiedBy string string string string
  | FetchEvaluationById string string
  | AggregatedResultToPydantic "json list"
  | FetchEvaluationScenariosForEvaluation string string
  | FetchListEvaluations "app_db option" string
  | EvaluationDbToPydantic evaluation_db
  | DeleteEvaluations "string list" string
  | CompareEvaluationsScenarios "string list" string

text \<open>
  The collaborators. None of them is defined in the router, so each is a parameter. Its
  first argument is the list of calls the request has issued so far: a collaborator may
  answer the same arguments differently at different moments (the database changes, the
  broker goes away), and within one request every call has its own history.
  \<open>randbelow\<close> is the random source behind \<^verbatim>\<open>random.choice\<close>, indexed by the number of
  earlier draws; \<open>str_HTTPException\<close> is \<^verbatim>\<open>str\<close> of an \<^verbatim>\<open>HTTPException\<close>, which the
  framework defines.
\<close>

record env =
  isCloudEE :: bool
  check_action_access :: "call list \<Rightarrow> string \<Rightarrow> access_target \<Rightarrow> permission \<Rightarrow> exn + bool"
  fetch_evaluations_by_resource ::
    "call list \<Rightarrow> string \<Rightarrow> string \<Rightarrow> string list option \<Rightarrow> exn + evaluation_db list"
  fetch_app_by_id :: "call list \<Rightarrow> string \<Rightarrow> string \<Rightarrow> exn + app_db option"
  check_ai_critique_inputs ::
    "call list \<Rightarrow> string list \<Rightarrow> (string \<times> string) list option \<Rightarrow> exn + (bool \<times> http_obj)"
  create_new_evaluation ::
    "call list \<Rightarrow> string \<Rightarrow> string \<Rightarrow> string \<Rightarrow> string \<Rightarrow> exn + evaluation_db"
  evaluate_delay :: "call list \<Rightarrow> evaluate_job \<Rightarrow> exn + unit"
  update_last_modified_by :: "call list \<Rightarrow> string \<Rightarrow> string \<Rightarrow> string \<Rightarrow> string \<Rightarrow> exn + unit"
  fetch_evaluation_by_id :: "call list \<Rightarrow> string \<Rightarrow> string \<Rightarrow> exn + evaluation_db option"
  aggregated_result_of_evaluation_to_pydantic :: "call list \<Rightarrow> json list \<Rightarrow> exn + json list"
  fetch_evaluation_scenarios_for_evaluation ::
    "call list \<Rightarrow> string \<Rightarrow> string \<Rightarrow> exn + json list"
  service_fetch_list_evaluations :: "call list \<Rightarrow> app_db option \<Rightarrow> string \<Rightarrow> exn + json list"
  evaluation_db_to_pydantic :: "call list \<Rightarrow> evaluation_db \<Rightarrow> exn + json"
  service_delete_evaluations :: "call list \<Rightarrow> string list \<Rightarrow> string \<Rightarrow> exn + unit"
  compare_evaluations_scenarios :: "call list \<Rightarrow> string list \<Rightarrow> string \<Rightarrow> exn + json"
  randbelow :: "nat \<Rightarrow> nat"
  str_HTTPException :: "nat \<Rightarrow> string \<Rightarrow> string"

section \<open>Effects: the calls of one request\<close>

record world =
  calls :: "call list"
  draws :: nat

type_synonym 'a io = "world \<Rightarrow> (exn + 'a) \<times> world"

definition return_io :: "'a \<Rightarrow> 'a io" where
  "return_io x w = (Inr x, w)"

definition raise_io :: "exn \<Rightarrow> 'a io" where
  "raise_io e w = (Inl e, w)"

definition bind_io :: "'a io \<Rightarrow> ('a \<Rightarrow> 'b io) \<Rightarrow> 'b io" where
  "bind_io m f w = (case m w of (Inl e, w') \<Rightarrow> (Inl e, w') | (Inr x, w') \<Rightarrow> f x w')"

text \<open>\<^verbatim>\<open>try: m  except Exception as exc: h(exc)\<close>\<close>

definition try_except :: "'a io \<Rightarrow> (exn \<Rightarrow> 'a io) \<Rightarrow> 'a io" where
  "try_except m h w = (case m w of (Inl e, w') \<Rightarrow> h e w' | (Inr x, w') \<Rightarrow> (Inr x, w'))"

text \<open>A call to a collaborator: answered from the history, then recorded.\<close>

definition invoke :: "call \<Rightarrow> (call list \<Rightarrow> exn + 'a) \<Rightarrow> 'a io" where
  "invoke c f w = (f (calls w), w\<lparr>calls := calls w @ [c]\<rparr>)"

text \<open>
  \<^verbatim>\<open>random.choice(seq)\<close>: \<^verbatim>\<open>IndexError\<close> on an empty sequence, else the element at an
  index below \<^verbatim>\<open>len(seq)\<close>.
\<close>

definition random_choice :: "env \<Rightarrow> 'a list \<Rightarrow> 'a io" where
  "random_choice env seq w =
     (if seq = [] then (Inl (IndexError ''Cannot choose from an empty sequence''), w)
      else (Inr (seq ! (randbelow env (draws w) mod length seq)), w\<lparr>draws := Suc (draws w)\<rparr>))"

definition start :: world where
  "start = \<lparr>calls = [], draws = 0\<rparr>"

definition run :: "'a io \<Rightarrow> (exn + 'a) \<times> world" where
  "run m = m start"

section \<open>Exceptions as the handlers inspect them\<close>

text \<open>\<^verbatim>\<open>str(exc)\<close>\<close>

fun str_exn :: "env \<Rightarrow> exn \<Rightarrow> string" where
  "str_exn env (HTTPException n d) = str_HTTPException env n d"
| "str_exn env (KeyError m) = m"
| "str_exn env (IndexError m) = m"
| "str_exn env (AttributeError m) = m"
| "str_exn env (Exception a m) = m"

text \<open>\<^verbatim>\<open>exc.status_code if hasattr(exc, "status_code") else 500\<close>\<close>

fun status_code_or_500 :: "exn \<Rightarrow> nat" where
  "status_code_or_500 (HTTPException n d) = n"
| "status_code_or_500 (Exception (Some n) m) = n"
| "status_code_or_500 e = 500"

definition quote :: string where
  "quote = [CHR 0x27]"

text \<open>Attribute access on a value that may be \<^verbatim>\<open>None\<close>.\<close>

definition getattr :: "'a option \<Rightarrow> ('a \<Rightarrow> 'b) \<Rightarrow> string \<Rightarrow> 'b io" where
  "getattr obj field name =
     (case obj of
        None \<Rightarrow> raise_io (AttributeError
                  (quote @ ''NoneType'' @ quote @ '' object has no attribute '' @ quote @ name @ quote))
      | Some x \<Rightarrow> return_io (field x))"

section \<open>The permission check shared by the handlers\<close>

definition error_msg :: string where
  "error_msg = ''You do not have permission to perform this action. Please contact your organization admin.''"

text \<open>
  \<^verbatim>\<open>has_permission = await check_action_access(...)\<close> followed by
  \<^verbatim>\<open>if not has_permission: return JSONResponse({"detail": error_msg}, status_code=403)\<close>,
  then the rest of the handler.
\<close>

definition access_gate :: "env \<Rightarrow> string \<Rightarrow> access_target \<Rightarrow> permission \<Rightarrow> ret io \<Rightarrow> ret io" where
  "access_gate env uid tgt perm rest =
     bind_io (invoke (CheckActionAccess uid tgt perm) (\<lambda>h. check_action_access env h uid tgt perm))
       (\<lambda>has_permission.
          if \<not> has_permission then return_io (Obj (JSONResponse error_msg 403)) else rest)"

text \<open>\<^verbatim>\<open>if isCloudEE(): ...\<close> around it.\<close>

definition cloud_gate :: "env \<Rightarrow> string \<Rightarrow> access_target \<Rightarrow> permission \<Rightarrow> ret io \<Rightarrow> ret io" where
  "cloud_gate env uid tgt perm rest =
     (if isCloudEE env then access_gate env uid tgt perm rest else rest)"

section \<open>The handlers\<close>

text \<open>
  Each handler is its \<^verbatim>\<open>try\<close> block (\<open>..._body\<close>) wrapped in its \<^verbatim>\<open>except\<close> clauses.
  Logging and \<^verbatim>\<open>traceback.print_exc()\<close> have no effect on the outcome and are left out.
\<close>

subsection \<open>\<^verbatim>\<open>GET /by_resource/\<close>\<close>

definition fetch_evaluation_ids_body ::
  "env \<Rightarrow> string \<Rightarrow> string \<Rightarrow> request_state \<Rightarrow> string list option \<Rightarrow> ret io" where
  "fetch_evaluation_ids_body env app_id' resource_type request resource_ids =
     cloud_gate env (user_id request) (Project (project_id request)) VIEW_EVALUATION
       (bind_io
          (invoke (FetchEvaluationsByResource resource_type (project_id request) resource_ids)
             (\<lambda>h. fetch_evaluations_by_resource env h resource_type (project_id request) resource_ids))
          (\<lambda>evaluations. return_io (Plain (Ids (map ident evaluations)))))"

definition fetch_evaluation_ids ::
  "env \<Rightarrow> string \<Rightarrow> string \<Rightarrow> request_state \<Rightarrow> string list option \<Rightarrow> ret io" where
  "fetch_evaluation_ids env app_id' resource_type request resource_ids =
     try_except (fetch_evaluation_ids_body env app_id' resource_type request resource_ids)
       (\<lambda>exc. raise_io (HTTPException 500 (str_exn env exc)))"

subsection \<open>\<^verbatim>\<open>POST /\<close>\<close>

definition job_for :: "new_evaluation \<Rightarrow> request_state \<Rightarrow> string \<Rightarrow> evaluation_db \<Rightarrow> evaluate_job" where
  "job_for payload request variant_id evaluation =
     \<lparr>job_app_id = app_id payload,
      job_project_id = project_id request,
      job_variant_id = variant_id,
      job_evaluators_config_ids = evaluators_configs payload,
      job_testset_id = testset_id payload,
      job_evaluation_id = ident evaluation,
      job_rate_limit_config = rate_limit payload,
      job_lm_providers_keys = lm_providers_keys payload\<rparr>"

text \<open>\<^verbatim>\<open>for variant_id in payload.variant_ids: ...\<close>, with the list \<^verbatim>\<open>evaluations\<close> built so far.\<close>

fun create_loop ::
  "env \<Rightarrow> new_evaluation \<Rightarrow> request_state \<Rightarrow> string list \<Rightarrow> evaluation_db list
     \<Rightarrow> evaluation_db list io" where
  "create_loop env payload request [] evaluations = return_io evaluations"
| "create_loop env payload request (variant_id # remaining) evaluations =
     bind_io
       (invoke (CreateNewEvaluation (app_id payload) (project_id request) variant_id (testset_id payload))
          (\<lambda>h. create_new_evaluation env h (app_id payload) (project_id request) variant_id
                  (testset_id payload)))
       (\<lambda>evaluation.
          bind_io
            (invoke (EvaluateDelay (job_for payload request variant_id evaluation))
               (\<lambda>h. evaluate_delay env h (job_for payload request variant_id evaluation)))
            (\<lambda>_. create_loop env payload request remaining (evaluations @ [evaluation])))"

definition create_evaluation_body :: "env \<Rightarrow> new_evaluation \<Rightarrow> request_state \<Rightarrow> ret io" where
  "create_evaluation_body env payload request =
     bind_io
       (invoke (FetchAppById (app_id payload) (project_id request))
          (\<lambda>h. fetch_app_by_id env h (app_id payload) (project_id request)))
       (\<lambda>app.
          if app = None then raise_io (HTTPException 404 ''App not found'')
          else
            cloud_gate env (user_id request) (Project (project_id request)) CREATE_EVALUATION
              (bind_io
                 (invoke (CheckAiCritiqueInputs (evaluators_configs payload) (lm_providers_keys payload))
                    (\<lambda>h. check_ai_critique_inputs env h (evaluators_configs payload)
                            (lm_providers_keys payload)))
                 (\<lambda>(success, response).
                    if \<not> success then return_io (Obj response)
                    else
                      bind_io (create_loop env payload request (variant_ids payload) [])
                        (\<lambda>evaluations.
                           bind_io
                             (invoke
                                (UpdateLastModifiedBy (user_id request) (app_id payload) ''app''
                                   (project_id request))
                                (\<lambda>h. update_last_modified_by env h (user_id request) (app_id payload)
                                        ''app'' (project_id request)))
                             (\<lambda>_. return_io (Plain (Evaluations evaluations)))))))"

text \<open>\<^verbatim>\<open>except KeyError\<close> first, then \<^verbatim>\<open>except Exception as e\<close>.\<close>

definition create_evaluation_except :: "env \<Rightarrow> exn \<Rightarrow> ret io" where
  "create_evaluation_except env e =
     (case e of
        KeyError m \<Rightarrow>
          raise_io (HTTPException 400
            ''columns in the test set should match the names of the inputs in the variant'')
      | _ \<Rightarrow> raise_io (HTTPException (status_code_or_500 e) (str_exn env e)))"

definition create_evaluation :: "env \<Rightarrow> new_evaluation \<Rightarrow> request_state \<Rightarrow> ret io" where
  "create_evaluation env payload request =
     try_except (create_evaluation_body env payload request) (create_evaluation_except env)"

subsection \<open>\<^verbatim>\<open>GET /{evaluation_id}/status/\<close>\<close>

definition fetch_evaluation_status_body :: "env \<Rightarrow> string \<Rightarrow> request_state \<Rightarrow> ret io" where
  "fetch_evaluation_status_body env evaluation_id request =
     bind_io
       (invoke (FetchEvaluationById evaluation_id (project_id request))
          (\<lambda>h. fetch_evaluation_by_id env h evaluation_id (project_id request)))
       (\<lambda>evaluation.
          cloud_gate env (user_id request) (Object_evaluation evaluation) VIEW_EVALUATION
            (bind_io (getattr evaluation status ''status'')
               (\<lambda>s. return_io (Plain (Status s)))))"

definition fetch_evaluation_status :: "env \<Rightarrow> string \<Rightarrow> request_state \<Rightarrow> ret io" where
  "fetch_evaluation_status env evaluation_id request =
     try_except (fetch_evaluation_status_body env evaluation_id request)
       (\<lambda>exc. raise_io (HTTPException 500 (str_exn env exc)))"

subsection \<open>\<^verbatim>\<open>GET /{evaluation_id}/results/\<close>\<close>

definition fetch_evaluation_results_body :: "env \<Rightarrow> string \<Rightarrow> request_state \<Rightarrow> ret io" where
  "fetch_evaluation_results_body env evaluation_id request =
     bind_io
       (invoke (FetchEvaluationById evaluation_id (project_id request))
          (\<lambda>h. fetch_evaluation_by_id env h evaluation_id (project_id request)))
       (\<lambda>evaluation.
          cloud_gate env (user_id request) (Object_evaluation evaluation) VIEW_EVALUATION
            (bind_io (getattr evaluation aggregated_results ''aggregated_results'')
               (\<lambda>aggregated.
                  bind_io
                    (invoke (AggregatedResultToPydantic aggregated)
                       (\<lambda>h. aggregated_result_of_evaluation_to_pydantic env h aggregated))
                    (\<lambda>results. return_io (Plain (Results results evaluation_id))))))"

definition fetch_evaluation_results :: "env \<Rightarrow> string \<Rightarrow> request_state \<Rightarrow> ret io" where
  "fetch_evaluation_results env evaluation_id request =
     try_except (fetch_evaluation_results_body env evaluation_id request)
       (\<lambda>exc. raise_io (HTTPException 500 (str_exn env exc)))"

subsection \<open>\<^verbatim>\<open>GET /{evaluation_id}/evaluation_scenarios/\<close>\<close>

definition not_found :: "string \<Rightarrow> exn" where
  "not_found evaluation_id =
     HTTPException 404 (''Evaluation with id '' @ evaluation_id @ '' not found'')"

definition fetch_evaluation_scenarios_body :: "env \<Rightarrow> string \<Rightarrow> request_state \<Rightarrow> ret io" where
  "fetch_evaluation_scenarios_body env evaluation_id request =
     bind_io
       (invoke (FetchEvaluationById evaluation_id (project_id request))
          (\<lambda>h. fetch_evaluation_by_id env h evaluation_id (project_id request)))
       (\<lambda>evaluation.
          case evaluation of
            None \<Rightarrow> raise_io (not_found evaluation_id)
          | Some ev \<Rightarrow>
              cloud_gate env (user_id request) (Object_evaluation evaluation) VIEW_EVALUATION
                (bind_io
                   (invoke (FetchEvaluationScenariosForEvaluation (ident ev) (project_id request))
                      (\<lambda>h. fetch_evaluation_scenarios_for_evaluation env h (ident ev)
                              (project_id request)))
                   (\<lambda>eval_scenarios. return_io (Plain (Scenarios eval_scenarios)))))"

definition fetch_evaluation_scenarios :: "env \<Rightarrow> string \<Rightarrow> request_state \<Rightarrow> ret io" where
  "fetch_evaluation_scenarios env evaluation_id request =
     try_except (fetch_evaluation_scenarios_body env evaluation_id request)
       (\<lambda>exc. raise_io (HTTPException (status_code_or_500 exc) (str_exn env exc)))"

subsection \<open>\<^verbatim>\<open>GET /\<close>\<close>

definition fetch_list_evaluations_body :: "env \<Rightarrow> string \<Rightarrow> request_state \<Rightarrow> ret io" where
  "fetch_list_evaluations_body env app_id' request =
     bind_io
       (invoke (FetchAppById app_id' (project_id request))
          (\<lambda>h. fetch_app_by_id env h app_id' (project_id request)))
       (\<lambda>app.
          cloud_gate env (user_id request) (Object_app app) VIEW_EVALUATION
            (bind_io
               (invoke (FetchListEvaluations app (project_id request))
                  (\<lambda>h. service_fetch_list_evaluations env h app (project_id request)))
               (\<lambda>evaluations. return_io (Plain (Evaluation_list evaluations)))))"

definition fetch_list_evaluations :: "env \<Rightarrow> string \<Rightarrow> request_state \<Rightarrow> ret io" where
  "fetch_list_evaluations env app_id' request =
     try_except (fetch_list_evaluations_body env app_id' request)
       (\<lambda>exc. raise_io (HTTPException (status_code_or_500 exc)
                 (''Could not retrieve evaluation results: '' @ str_exn env exc)))"

subsection \<open>\<^verbatim>\<open>GET /{evaluation_id}/\<close>\<close>

definition fetch_evaluation_body :: "env \<Rightarrow> string \<Rightarrow> request_state \<Rightarrow> ret io" where
  "fetch_evaluation_body env evaluation_id request =
     bind_io
       (invoke (FetchEvaluationById evaluation_id (project_id request))
          (\<lambda>h. fetch_evaluation_by_id env h evaluation_id (project_id request)))
       (\<lambda>evaluation.
          case evaluation of
            None \<Rightarrow> raise_io (not_found evaluation_id)
          | Some ev \<Rightarrow>
              cloud_gate env (user_id request) (Object_ref evaluation_id ''evaluation'') VIEW_EVALUATION
                (bind_io (invoke (EvaluationDbToPydantic ev) (\<lambda>h. evaluation_db_to_pydantic env h ev))
                   (\<lambda>e. return_io (Plain (Evaluation e)))))"

definition fetch_evaluation :: "env \<Rightarrow> string \<Rightarrow> request_state \<Rightarrow> ret io" where
  "fetch_evaluation env evaluation_id request =
     try_except (fetch_evaluation_body env evaluation_id request)
       (\<lambda>exc. raise_io (HTTPException (status_code_or_500 exc) (str_exn env exc)))"

subsection \<open>\<^verbatim>\<open>DELETE /\<close>\<close>

text \<open>
  In cloud mode one id is drawn with \<^verbatim>\<open>random.choice\<close> and checked. A second draw gives
  the \<^verbatim>\<open>object_id\<close> for \<^verbatim>\<open>update_last_modified_by\<close>; its arguments are evaluated
  before the call.
\<close>

definition delete_evaluations_body :: "env \<Rightarrow> delete_evaluation \<Rightarrow> request_state \<Rightarrow> ret io" where
  "delete_evaluations_body env payload request =
     (let rest =
        bind_io (random_choice env (evaluations_ids payload))
          (\<lambda>object_id.
             bind_io
               (invoke
                  (UpdateLastModifiedBy (user_id request) object_id ''evaluation'' (project_id request))
                  (\<lambda>h. update_last_modified_by env h (user_id request) object_id ''evaluation''
                          (project_id request)))
               (\<lambda>_.
                  bind_io
                    (invoke (DeleteEvaluations (evaluations_ids payload) (project_id request))
                       (\<lambda>h. service_delete_evaluations env h (evaluations_ids payload)
                               (project_id request)))
                    (\<lambda>_. return_io (Obj (Response 204)))))
      in
        if isCloudEE env then
          bind_io (random_choice env (evaluations_ids payload))
            (\<lambda>evaluation_id.
               access_gate env (user_id request) (Object_ref evaluation_id ''evaluation'')
                 DELETE_EVALUATION rest)
        else rest)"

definition delete_evaluations :: "env \<Rightarrow> delete_evaluation \<Rightarrow> request_state \<Rightarrow> ret io" where
  "delete_evaluations env payload request =
     try_except (delete_evaluations_body env payload request)
       (\<lambda>exc. raise_io (HTTPException 500 (str_exn env exc)))"

subsection \<open>\<^verbatim>\<open>GET /evaluation_scenarios/comparison-results/\<close>\<close>

text \<open>\<^verbatim>\<open>s.split(c)\<close> for a one-character separator: never an empty list.\<close>

fun split :: "char \<Rightarrow> string \<Rightarrow> string list" where
  "split c [] = [[]]"
| "split c (x # xs) =
     (if x = c then [] # split c xs
      else (case split c xs of [] \<Rightarrow> [[x]] | y # ys \<Rightarrow> (x # y) # ys))"

text \<open>
  \<^verbatim>\<open>for evaluation_id in evaluations_ids_list:\<close> with the permission check inside; the
  \<^verbatim>\<open>return\<close> in the loop leaves the handler.
\<close>

fun check_each :: "env \<Rightarrow> string \<Rightarrow> string list \<Rightarrow> ret io \<Rightarrow> ret io" where
  "check_each env uid [] rest = rest"
| "check_each env uid (evaluation_id # remaining) rest =
     access_gate env uid (Object_ref evaluation_id ''evaluation'') VIEW_EVALUATION
       (check_each env uid remaining rest)"

definition fetch_evaluation_scenarios_comparison_body ::
  "env \<Rightarrow> string \<Rightarrow> request_state \<Rightarrow> ret io" where
  "fetch_evaluation_scenarios_comparison_body env evaluations_ids' request =
     (let evaluations_ids_list = split CHR '','' evaluations_ids';
          rest =
            bind_io
              (invoke (CompareEvaluationsScenarios evaluations_ids_list (project_id request))
                 (\<lambda>h. compare_evaluations_scenarios env h evaluations_ids_list (project_id request)))
              (\<lambda>eval_scenarios. return_io (Plain (Comparison eval_scenarios)))
      in
        if isCloudEE env then check_each env (user_id request) evaluations_ids_list rest
        else rest)"

definition fetch_evaluation_scenarios_comparison ::
  "env \<Rightarrow> string \<Rightarrow> request_state \<Rightarrow> ret io" where
  "fetch_evaluation_scenarios_comparison env evaluations_ids' request =
     try_except (fetch_evaluation_scenarios_comparison_body env evaluations_ids' request)
       (\<lambda>exc. raise_io (HTTPException 500 (str_exn env exc)))"

section \<open>The router\<close>

text \<open>The nine routes with their path, query and body parameters.\<close>

datatype req =
    GET_by_resource string string "string list option"
  | POST_create new_evaluation
  | GET_status string
  | GET_results string
  | GET_scenarios string
  | GET_list string
  | GET_single string
  | DELETE_evaluations delete_evaluation
  | GET_comparison string

fun route_body :: "env \<Rightarrow> req \<Rightarrow> request_state \<Rightarrow> ret io" where
  "route_body env (GET_by_resource a t ids) r = fetch_evaluation_ids_body env a t r ids"
| "route_body env (POST_create p) r = create_evaluation_body env p r"
| "route_body env (GET_status i) r = fetch_evaluation_status_body env i r"
| "route_body env (GET_results i) r = fetch_evaluation_results_body env i r"
| "route_body env (GET_scenarios i) r = fetch_evaluation_scenarios_body env i r"
| "route_body env (GET_list a) r = fetch_list_evaluations_body env a r"
| "route_body env (GET_single i) r = fetch_evaluation_body env i r"
| "route_body env (DELETE_evaluations p) r = delete_evaluations_body env p r"
| "route_body env (GET_comparison ids) r = fetch_evaluation_scenarios_comparison_body env ids r"

fun route :: "env \<Rightarrow> req \<Rightarrow> request_state \<Rightarrow> ret io" where
  "route env (GET_by_resource a t ids) r = fetch_evaluation_ids env a t r ids"
| "route env (POST_create p) r = create_evaluation env p r"
| "route env (GET_status i) r = fetch_evaluation_status env i r"
| "route env (GET_results i) r = fetch_evaluation_results env i r"
| "route env (GET_scenarios i) r = fetch_evaluation_scenarios env i r"
| "route env (GET_list a) r = fetch_list_evaluations env a r"
| "route env (GET_single i) r = fetch_evaluation env i r"
| "route env (DELETE_evaluations p) r = delete_evaluations env p r"
| "route env (GET_comparison ids) r = fetch_evaluation_scenarios_comparison env ids r"

text \<open>
  What the framework sends for the outcome of a handler: plain data with the route's
  default status 200, a response object as it is, an \<^verbatim>\<open>HTTPException\<close> as its status
  with \<^verbatim>\<open>{"detail": ...}\<close>, and the server-error page for any other exception.
\<close>

datatype http_body = No_body | Detail string | Json content | Text string

record http_response =
  status_code :: nat
  body :: http_body

fun respond :: "exn + ret \<Rightarrow> http_response" where
  "respond (Inr (Plain v)) = \<lparr>status_code = 200, body = Json v\<rparr>"
| "respond (Inr (Obj (JSONResponse d n))) = \<lparr>status_code = n, body = Detail d\<rparr>"
| "respond (Inr (Obj (Response n))) = \<lparr>status_code = n, body = No_body\<rparr>"
| "respond (Inl (HTTPException n d)) = \<lparr>status_code = n, body = Detail d\<rparr>"
| "respond (Inl e) = \<lparr>status_code = 500, body = Text ''Internal Server Error''\<rparr>"

definition outcome :: "ret io \<Rightarrow> exn + ret" where
  "outcome m = fst (run m)"

definition trace :: "ret io \<Rightarrow> call list" where
  "trace m = calls (snd (run m))"

section \<open>Reading a trace\<close>

fun is_check :: "call \<Rightarrow> bool" where
  "is_check (CheckActionAccess u t p) = True"
| "is_check c = False"

fun is_create :: "call \<Rightarrow> bool" where
  "is_create (CreateNewEvaluation a p v t) = True"
| "is_create c = False"

fun is_delay :: "call \<Rightarrow> bool" where
  "is_delay (EvaluateDelay j) = True"
| "is_delay c = False"

fun is_delete :: "call \<Rightarrow> bool" where
  "is_delete (DeleteEvaluations ids p) = True"
| "is_delete c = False"

fun is_compare :: "call \<Rightarrow> bool" where
  "is_compare (CompareEvaluationsScenarios ids p) = True"
| "is_compare c = False"

text \<open>
  Some permission check of the trace was answered \<^verbatim>\<open>False\<close>: \<open>h\<close> is the history before
  the calls still to read, which is what the collaborator was given.
\<close>

fun denied_in :: "env \<Rightarrow> call list \<Rightarrow> call list \<Rightarrow> bool" where
  "denied_in env h [] = False"
| "denied_in env h (c # cs) =
     ((case c of
         CheckActionAccess u t p \<Rightarrow> check_action_access env h u t p = Inr False
       | _ \<Rightarrow> False)
      \<or> denied_in env (h @ [c]) cs)"

definition access_denied :: "env \<Rightarrow> call list \<Rightarrow> bool" where
  "access_denied env cs = denied_in env [] cs"

text \<open>\<^verbatim>\<open>",".join(ids)\<close>\<close>

fun join :: "char \<Rightarrow> string list \<Rightarrow> string" where
  "join c [] = []"
| "join c [x] = x"
| "join c (x # y # ys) = x @ c # join c (y # ys)"

fun is_update :: "call \<Rightarrow> bool" where
  "is_update (UpdateLastModifiedBy u i t p) = True"
| "is_update c = False"

text \<open>The permission check the comparison handler issues for one id.\<close>

definition view_check :: "string \<Rightarrow> string \<Rightarrow> call" where
  "view_check uid i = CheckActionAccess uid (Object_ref i ''evaluation'') VIEW_EVALUATION"

text \<open>The calls of \<^verbatim>\<open>create_evaluation\<close>: those before its loop, and those of the loop.\<close>

definition calls_before_loop :: "env \<Rightarrow> new_evaluation \<Rightarrow> request_state \<Rightarrow> call list" where
  "calls_before_loop env payload request =
     FetchAppById (app_id payload) (project_id request)
     # (if isCloudEE env
        then [CheckActionAccess (user_id request) (Project (project_id request)) CREATE_EVALUATION]
        else [])
     @ [CheckAiCritiqueInputs (evaluators_configs payload) (lm_providers_keys payload)]"

definition create_call :: "new_evaluation \<Rightarrow> request_state \<Rightarrow> string \<Rightarrow> call" where
  "create_call payload request variant_id =
     CreateNewEvaluation (app_id payload) (project_id request) variant_id (testset_id payload)"

definition delay_call :: "new_evaluation \<Rightarrow> request_state \<Rightarrow> string \<Rightarrow> evaluation_db \<Rightarrow> call" where
  "delay_call payload request variant_id evaluation =
     EvaluateDelay (job_for payload request variant_id evaluation)"

fun loop_calls ::
  "new_evaluation \<Rightarrow> request_state \<Rightarrow> string list \<Rightarrow> evaluation_db list \<Rightarrow> call list" where
  "loop_calls payload request (v # vs) (e # es) =
     create_call payload request v # delay_call payload request v e
     # loop_calls payload request vs es"
| "loop_calls payload request vs es = []"

text \<open>
  How a computation treats a refused permission check. \<open>never_denied\<close>: it only adds
  calls, none of them a check answered \<^verbatim>\<open>False\<close>. \<open>answers_denial\<close>: it only adds calls,
  and when one of them is a check answered \<^verbatim>\<open>False\<close> it returns the 403 response.
\<close>

definition never_denied :: "env \<Rightarrow> 'a io \<Rightarrow> bool" where
  "never_denied env m =
     (\<forall>w res w'. m w = (res, w') \<longrightarrow>
        (\<exists>cs. calls w' = calls w @ cs \<and> \<not> denied_in env (calls w) cs))"

definition answers_denial :: "env \<Rightarrow> ret io \<Rightarrow> bool" where
  "answers_denial env m =
     (\<forall>w res w'. m w = (res, w') \<longrightarrow>
        (\<exists>cs. calls w' = calls w @ cs \<and>
              (denied_in env (calls w) cs \<longrightarrow> res = Inr (Obj (JSONResponse error_msg 403)))))"

section \<open>The errors each handler raises, as the specification is amended\<close>

text \<open>
  Four handlers keep the status of an exception that has one; the other five always
  answer 500.
\<close>

fun keeps_status :: "req \<Rightarrow> bool" where
  "keeps_status (POST_create p) = True"
| "keeps_status (GET_scenarios i) = True"
| "keeps_status (GET_list a) = True"
| "keeps_status (GET_single i) = True"
| "keeps_status q = False"

fun detail_prefix :: "req \<Rightarrow> string" where
  "detail_prefix (GET_list a) = ''Could not retrieve evaluation results: ''"
| "detail_prefix q = []"

fun is_KeyError :: "exn \<Rightarrow> bool" where
  "is_KeyError (KeyError m) = True"
| "is_KeyError e = False"

fun is_create_request :: "req \<Rightarrow> bool" where
  "is_create_request (POST_create p) = True"
| "is_create_request q = False"

definition converted :: "env \<Rightarrow> req \<Rightarrow> exn \<Rightarrow> exn" where
  "converted env q e =
     (if is_create_request q \<and> is_KeyError e then
        HTTPException 400
          ''columns in the test set should match the names of the inputs in the variant''
      else
        HTTPException (if keeps_status q then status_code_or_500 e else 500)
          (detail_prefix q @ str_exn env e))"

section \<open>A small deployment to run the handlers on\<close>

definition sample_evaluation :: "string \<Rightarrow> evaluation_db" where
  "sample_evaluation i = \<lparr>ident = i, status = ''EVALUATION_STARTED'', aggregated_results = []\<rparr>"

text \<open>
  One app \<^verbatim>\<open>app-1\<close>, one evaluation \<^verbatim>\<open>evaluation-1\<close>; creating an evaluation for the
  variant \<^verbatim>\<open>variant-bad\<close> fails with a \<^verbatim>\<open>KeyError\<close>; the permission checker answers
  \<open>allow\<close> to everything.
\<close>

definition sample_env :: "bool \<Rightarrow> bool \<Rightarrow> env" where
  "sample_env cloud allow =
     \<lparr>isCloudEE = cloud,
      check_action_access = (\<lambda>h u t p. Inr allow),
      fetch_evaluations_by_resource = (\<lambda>h t p ids. Inr []),
      fetch_app_by_id = (\<lambda>h a p. Inr (if a = ''app-1'' then Some \<lparr>app_ident = a\<rparr> else None)),
      check_ai_critique_inputs = (\<lambda>h c k. Inr (True, Response 200)),
      create_new_evaluation =
        (\<lambda>h a p v t. if v = ''variant-bad'' then Inl (KeyError ''question'')
                     else Inr (sample_evaluation (''evaluation-of-'' @ v))),
      evaluate_delay = (\<lambda>h j. Inr ()),
      update_last_modified_by = (\<lambda>h u i t p. Inr ()),
      fetch_evaluation_by_id =
        (\<lambda>h i p. Inr (if i = ''evaluation-1'' then Some (sample_evaluation i) else None)),
      aggregated_result_of_evaluation_to_pydantic = (\<lambda>h rs. Inr rs),
      fetch_evaluation_scenarios_for_evaluation = (\<lambda>h i p. Inr []),
      service_fetch_list_evaluations = (\<lambda>h a p. Inr []),
      evaluation_db_to_pydantic = (\<lambda>h e. Inr (ident e)),
      service_delete_evaluations = (\<lambda>h ids p. Inr ()),
      compare_evaluations_scenarios = (\<lambda>h ids p. Inr ''[]''),
      randbelow = (\<lambda>n. n),
      str_HTTPException = (\<lambda>n d. d)\<rparr>"

definition sample_request :: request_state where
  "sample_request = \<lparr>user_id = ''user-1'', project_id = ''project-1''\<rparr>"

definition sample_payload :: "string list \<Rightarrow> new_evaluation" where
  "sample_payload vs =
     \<lparr>app_id = ''app-1'', variant_ids = vs, evaluators_configs = [''exact-match''],
      testset_id = ''testset-1'', rate_limit = [(''batch_size'', 10)], lm_providers_keys = None\<rparr>"

section \<open>Running the definitions\<close>

lemmas io_defs = return_io_def raise_io_def bind_io_def try_except_def invoke_def

lemmas run_defs = outcome_def trace_def run_def start_def

lemmas handler_defs =
  fetch_evaluation_ids_def create_evaluation_def fetch_evaluation_status_def
  fetch_evaluation_results_def fetch_evaluation_scenarios_def fetch_list_evaluations_def
  fetch_evaluation_def delete_evaluations_def fetch_evaluation_scenarios_comparison_def

lemmas sample_defs = sample_env_def sample_request_def sample_payload_def sample_evaluation_def

section \<open>Deleting with an empty list of ids\<close>

text \<open>
  C9: a \<^verbatim>\<open>DELETE\<close> whose \<^verbatim>\<open>evaluations_ids\<close> is empty fails with HTTP 500 in cloud mode
  and outside it: \<^verbatim>\<open>random.choice\<close> raises on the empty list before any collaborator is
  called, so nothing is deleted and the 204 is never reached.
\<close>

theorem delete_evaluations_empty_ids:
  "outcome (delete_evaluations env \<lparr>evaluations_ids = []\<rparr> request)
     = Inl (HTTPException 500 ''Cannot choose from an empty sequence'')
   \<and> status_code (respond (outcome (delete_evaluations env \<lparr>evaluations_ids = []\<rparr> request))) = 500
   \<and> trace (delete_evaluations env \<lparr>evaluations_ids = []\<rparr> request) = []"
  by (simp add: run_defs delete_evaluations_def delete_evaluations_body_def
      random_choice_def io_defs Let_def)

section \<open>A \<^verbatim>\<open>KeyError\<close> while creating\<close>

text \<open>
  C7: when the \<^verbatim>\<open>try\<close> block of \<^verbatim>\<open>create_evaluation\<close> raises a \<^verbatim>\<open>KeyError\<close>, the
  response has status 400 and the detail about the columns of the test set.
\<close>

theorem create_evaluation_key_error:
  "outcome (create_evaluation_body env payload request) = Inl (KeyError m) \<Longrightarrow>
   respond (outcome (create_evaluation env payload request)) =
     \<lparr>status_code = 400,
      body = Detail ''columns in the test set should match the names of the inputs in the variant''\<rparr>"
  by (auto simp add: outcome_def run_def create_evaluation_def try_except_def
      create_evaluation_except_def raise_io_def split: prod.splits sum.splits)

theorem create_evaluation_key_error_witness:
  "outcome (create_evaluation_body (sample_env False True)
      (sample_payload [''variant-1'', ''variant-bad'']) sample_request) = Inl (KeyError ''question'')
   \<and> respond (outcome (create_evaluation (sample_env False True)
      (sample_payload [''variant-1'', ''variant-bad'']) sample_request)) =
     \<lparr>status_code = 400,
      body = Detail ''columns in the test set should match the names of the inputs in the variant''\<rparr>"
proof -
  have h: "outcome (create_evaluation_body (sample_env False True)
      (sample_payload [''variant-1'', ''variant-bad'']) sample_request) = Inl (KeyError ''question'')"
    by (simp add: run_defs create_evaluation_body_def cloud_gate_def sample_defs io_defs)
  from create_evaluation_key_error [OF h] h show ?thesis by simp
qed

section \<open>What the \<^verbatim>\<open>except\<close> clauses raise\<close>

text \<open>
  C8, as stated: every handler turns an exception of its body into status 500. The
  single-evaluation handler does not: for an id that is not found its body raises the
  404, which has a \<^verbatim>\<open>status_code\<close>, and the response is that 404.
\<close>

theorem every_exception_is_500_counterexample:
  "outcome (fetch_evaluation_body (sample_env False True) ''evaluation-9'' sample_request)
      = Inl (HTTPException 404 ''Evaluation with id evaluation-9 not found'')
   \<and> respond (outcome (fetch_evaluation (sample_env False True) ''evaluation-9'' sample_request))
      = \<lparr>status_code = 404, body = Detail ''Evaluation with id evaluation-9 not found''\<rparr>"
  by (simp add: run_defs fetch_evaluation_def fetch_evaluation_body_def
      sample_defs not_found_def io_defs)

text \<open>
  C8, amended: every handler turns an exception of its body into an \<^verbatim>\<open>HTTPException\<close>
  and calls nothing more. The handlers for the ids by resource, the status, the results,
  the deletion and the comparison answer 500 with \<^verbatim>\<open>str(exc)\<close> as detail. The handlers
  for creation, the scenarios, the list and the single evaluation answer the exception's
  own \<^verbatim>\<open>status_code\<close> when it has one and 500 otherwise, with \<^verbatim>\<open>str(exc)\<close> as detail,
  which the list handler prefixes with its own text; creation answers a \<^verbatim>\<open>KeyError\<close>
  with 400 and a fixed detail.
\<close>

theorem exception_conversion:
  "run (route_body env q r) = (Inl e, w') \<Longrightarrow> run (route env q r) = (Inl (converted env q e), w')"
  by (cases q; cases e)
     (simp_all add: run_def converted_def handler_defs create_evaluation_except_def
        try_except_def raise_io_def)

theorem exception_conversion_witness:
  "run (route_body (sample_env False True) (GET_single ''evaluation-9'') sample_request)
     = (Inl (HTTPException 404 ''Evaluation with id evaluation-9 not found''),
        \<lparr>calls = [FetchEvaluationById ''evaluation-9'' ''project-1''], draws = 0\<rparr>)
   \<and> run (route (sample_env False True) (GET_single ''evaluation-9'') sample_request)
     = (Inl (converted (sample_env False True) (GET_single ''evaluation-9'')
               (HTTPException 404 ''Evaluation with id evaluation-9 not found'')),
        \<lparr>calls = [FetchEvaluationById ''evaluation-9'' ''project-1''], draws = 0\<rparr>)"
proof -
  have h: "run (route_body (sample_env False True) (GET_single ''evaluation-9'') sample_request)
     = (Inl (HTTPException 404 ''Evaluation with id evaluation-9 not found''),
        \<lparr>calls = [FetchEvaluationById ''evaluation-9'' ''project-1''], draws = 0\<rparr>)"
    by (simp add: run_defs fetch_evaluation_body_def sample_defs not_found_def io_defs)
  from exception_conversion [OF h] h show ?thesis by simp
qed

section \<open>Ids that do not exist\<close>

text \<open>
  C1: a request for an evaluation id that does not exist is answered 404. The status
  handler reads \<^verbatim>\<open>evaluation.status\<close> without the test for \<^verbatim>\<open>None\<close> that the scenario
  and single-evaluation handlers make: outside cloud mode the missing id gives the
  \<^verbatim>\<open>AttributeError\<close> of \<^verbatim>\<open>None\<close>, answered 500.
\<close>

theorem fetch_evaluation_status_missing_id:
  "respond (outcome (fetch_evaluation_status (sample_env False True) ''evaluation-9'' sample_request))
   = \<lparr>status_code = 500,
      body = Detail (quote @ ''NoneType'' @ quote @ '' object has no attribute '' @ quote
                      @ ''status'' @ quote)\<rparr>"
  by (simp add: run_defs fetch_evaluation_status_def fetch_evaluation_status_body_def
      sample_defs cloud_gate_def getattr_def io_defs)


section \<open>Deleting evaluations\<close>

text \<open>
  C6: when \<^verbatim>\<open>delete_evaluations\<close> succeeds (its response is not an error), the response
  is 204 with no body, and the evaluation service was asked once to delete, with exactly
  the ids of the payload.
\<close>

theorem delete_evaluations_success:
  "status_code (respond (outcome (delete_evaluations env payload request))) < 400 \<Longrightarrow>
   respond (outcome (delete_evaluations env payload request)) = \<lparr>status_code = 204, body = No_body\<rparr>
   \<and> filter is_delete (trace (delete_evaluations env payload request))
       = [DeleteEvaluations (evaluations_ids payload) (project_id request)]"
  by (auto simp add: run_defs delete_evaluations_def delete_evaluations_body_def access_gate_def
      random_choice_def io_defs Let_def split: sum.splits if_splits prod.splits)

theorem delete_evaluations_success_witness:
  "status_code (respond (outcome (delete_evaluations (sample_env False True)
      \<lparr>evaluations_ids = [''evaluation-1'', ''evaluation-2'']\<rparr> sample_request))) < 400
   \<and> respond (outcome (delete_evaluations (sample_env False True)
      \<lparr>evaluations_ids = [''evaluation-1'', ''evaluation-2'']\<rparr> sample_request))
       = \<lparr>status_code = 204, body = No_body\<rparr>
   \<and> filter is_delete (trace (delete_evaluations (sample_env False True)
      \<lparr>evaluations_ids = [''evaluation-1'', ''evaluation-2'']\<rparr> sample_request))
       = [DeleteEvaluations (evaluations_ids \<lparr>evaluations_ids = [''evaluation-1'', ''evaluation-2'']\<rparr>)
            (project_id sample_request)]"
proof -
  have h: "status_code (respond (outcome (delete_evaluations (sample_env False True)
      \<lparr>evaluations_ids = [''evaluation-1'', ''evaluation-2'']\<rparr> sample_request))) < 400"
    by (simp add: run_defs delete_evaluations_def delete_evaluations_body_def random_choice_def
        io_defs Let_def sample_defs)
  from delete_evaluations_success [OF h] h show ?thesis by simp
qed

lemma delete_evaluations_checks:
  "isCloudEE env \<Longrightarrow> evaluations_ids payload \<noteq> [] \<Longrightarrow>
   \<exists>i \<in> set (evaluations_ids payload).
     filter is_check (trace (delete_evaluations env payload request))
       = [CheckActionAccess (user_id request) (Object_ref i ''evaluation'') DELETE_EVALUATION]"
  by (auto simp add: run_defs delete_evaluations_def delete_evaluations_body_def access_gate_def
      random_choice_def io_defs Let_def split: sum.splits if_splits prod.splits)

section \<open>The permission checks of the comparison\<close>

lemma check_each_cases:
  "check_each env uid ids rest w = (res, w') \<Longrightarrow>
   rest (w\<lparr>calls := calls w @ map (view_check uid) ids\<rparr>) = (res, w')
   \<or> (\<exists>n. calls w' = calls w @ map (view_check uid) (take n ids))"
proof (induction ids arbitrary: w)
  case Nil
  then show ?case by simp
next
  case (Cons i ids)
  show ?case
  proof (cases "check_action_access env (calls w) uid (Object_ref i ''evaluation'') VIEW_EVALUATION")
    case (Inl e)
    with Cons.prems have "calls w' = calls w @ map (view_check uid) (take 1 (i # ids))"
      by (auto simp add: access_gate_def io_defs view_check_def)
    then show ?thesis by blast
  next
    case (Inr b)
    show ?thesis
    proof (cases b)
      case False
      with Inr Cons.prems have "calls w' = calls w @ map (view_check uid) (take 1 (i # ids))"
        by (auto simp add: access_gate_def io_defs view_check_def)
      then show ?thesis by blast
    next
      case True
      with Inr Cons.prems have
        "check_each env uid ids rest (w\<lparr>calls := calls w @ [view_check uid i]\<rparr>) = (res, w')"
        by (simp add: access_gate_def io_defs view_check_def)
      from Cons.IH [OF this] show ?thesis
      proof
        assume "rest (w\<lparr>calls := calls w @ [view_check uid i]\<rparr>
                  \<lparr>calls := calls (w\<lparr>calls := calls w @ [view_check uid i]\<rparr>)
                            @ map (view_check uid) ids\<rparr>) = (res, w')"
        then show ?thesis by simp
      next
        assume "\<exists>n. calls w' = calls (w\<lparr>calls := calls w @ [view_check uid i]\<rparr>)
                       @ map (view_check uid) (take n ids)"
        then obtain n where "calls w' = calls w @ map (view_check uid) (take (Suc n) (i # ids))"
          by auto
        then show ?thesis by blast
      qed
    qed
  qed
qed

text \<open>Once the comparison service is called, the trace is one check per id and that call.\<close>

lemma comparison_trace:
  assumes "isCloudEE env"
    and "list_ex is_compare (trace (fetch_evaluation_scenarios_comparison env s request))"
  shows "trace (fetch_evaluation_scenarios_comparison env s request)
     = map (view_check (user_id request)) (split CHR '','' s)
       @ [CompareEvaluationsScenarios (split CHR '','' s) (project_id request)]"
proof -
  let ?ids = "split CHR '','' s"
  let ?rest = "bind_io
              (invoke (CompareEvaluationsScenarios ?ids (project_id request))
                 (\<lambda>h. compare_evaluations_scenarios env h ?ids (project_id request)))
              (\<lambda>eval_scenarios. return_io (Plain (Comparison eval_scenarios)))"
  obtain res w' where r: "check_each env (user_id request) ?ids ?rest start = (res, w')"
    by (cases "check_each env (user_id request) ?ids ?rest start") auto
  have body: "fetch_evaluation_scenarios_comparison_body env s request start = (res, w')"
    using assms(1) r by (simp add: fetch_evaluation_scenarios_comparison_body_def Let_def)
  have tr: "trace (fetch_evaluation_scenarios_comparison env s request) = calls w'"
    using body by (auto simp add: trace_def run_def fetch_evaluation_scenarios_comparison_def
        try_except_def raise_io_def split: sum.splits)
  from check_each_cases [OF r] show ?thesis
  proof
    assume "?rest (start\<lparr>calls := calls start @ map (view_check (user_id request)) ?ids\<rparr>) = (res, w')"
    then have "calls w' = map (view_check (user_id request)) ?ids
                 @ [CompareEvaluationsScenarios ?ids (project_id request)]"
      by (auto simp add: io_defs start_def split: sum.splits)
    with tr show ?thesis by simp
  next
    assume "\<exists>n. calls w' = calls start @ map (view_check (user_id request)) (take n ?ids)"
    then obtain n where "calls w' = map (view_check (user_id request)) (take n ?ids)"
      by (auto simp add: start_def)
    with tr assms(2) have False
      by (auto simp add: list_ex_iff view_check_def dest!: in_set_takeD)
    then show ?thesis ..
  qed
qed

text \<open>Splitting at the commas gives back the ids that were joined with commas.\<close>

lemma split_join:
  "ids \<noteq> [] \<Longrightarrow> \<forall>i\<in>set ids. c \<notin> set i \<Longrightarrow> split c (join c ids) = ids"
proof (induction c ids rule: join.induct)
  case (1 c)
  then show ?case by simp
next
  case (2 c x)
  then show ?case by (induction x) (auto split: list.splits)
next
  case (3 c x y ys)
  then have "split c (join c (y # ys)) = y # ys" by simp
  moreover have "c \<notin> set x" using 3 by simp
  ultimately show ?case by (induction x) (auto split: list.splits)
qed

text \<open>
  C5: in cloud mode, for K \<open>\<ge>\<close> 1 evaluation ids joined with commas, when the comparison
  handler calls \<^verbatim>\<open>compare_evaluations_scenarios\<close> it has issued exactly K permission
  checks before, one per id and in their order, and nothing else.
\<close>

theorem comparison_checks_every_id:
  assumes "isCloudEE env" and "ids \<noteq> []" and "\<forall>i\<in>set ids. CHR '','' \<notin> set i"
    and "list_ex is_compare
           (trace (fetch_evaluation_scenarios_comparison env (join CHR '','' ids) request))"
  shows "trace (fetch_evaluation_scenarios_comparison env (join CHR '','' ids) request)
     = map (view_check (user_id request)) ids
       @ [CompareEvaluationsScenarios ids (project_id request)]"
  using comparison_trace [OF assms(1) assms(4)] split_join [OF assms(2) assms(3)] by simp

theorem comparison_checks_every_id_witness:
  "isCloudEE (sample_env True True)
   \<and> list_ex is_compare
       (trace (fetch_evaluation_scenarios_comparison (sample_env True True)
          (join CHR '','' [''evaluation-1'', ''evaluation-2'', ''evaluation-3'']) sample_request))
   \<and> trace (fetch_evaluation_scenarios_comparison (sample_env True True)
          (join CHR '','' [''evaluation-1'', ''evaluation-2'', ''evaluation-3'']) sample_request)
     = map (view_check (user_id sample_request)) [''evaluation-1'', ''evaluation-2'', ''evaluation-3'']
       @ [CompareEvaluationsScenarios [''evaluation-1'', ''evaluation-2'', ''evaluation-3'']
            (project_id sample_request)]"
proof -
  let ?ids = "[''evaluation-1'', ''evaluation-2'', ''evaluation-3'']"
  have h1: "isCloudEE (sample_env True True)"
    by (simp add: sample_env_def)
  have h2: "?ids \<noteq> []"
    by simp
  have h3: "\<forall>i\<in>set ?ids. CHR '','' \<notin> set i"
    by simp
  have h4: "list_ex is_compare
       (trace (fetch_evaluation_scenarios_comparison (sample_env True True)
          (join CHR '','' ?ids) sample_request))"
    by (simp add: run_defs fetch_evaluation_scenarios_comparison_def
        fetch_evaluation_scenarios_comparison_body_def access_gate_def io_defs Let_def sample_defs)
  from comparison_checks_every_id [OF h1 h2 h3 h4] h1 h4 show ?thesis by simp
qed

text \<open>
  C2, as stated: in cloud mode \<^verbatim>\<open>delete_evaluations\<close> issues exactly one permission check
  however many ids the payload has. With no id at all it issues none: \<^verbatim>\<open>random.choice\<close>
  raises before the check.
\<close>

theorem delete_checks_one_id_counterexample:
  "isCloudEE (sample_env True True)
   \<and> length (filter is_check
       (trace (delete_evaluations (sample_env True True) \<lparr>evaluations_ids = []\<rparr> sample_request)))
     \<noteq> 1"
  by (simp add: run_defs delete_evaluations_def delete_evaluations_body_def
      random_choice_def io_defs Let_def sample_defs)

text \<open>
  C2, amended: in cloud mode, for a payload with at least one id, \<^verbatim>\<open>delete_evaluations\<close>
  issues exactly one permission check, for one id of the payload, however many ids there
  are; the comparison handler, when it reaches its service, has issued one check per id.
\<close>

theorem delete_checks_one_id:
  assumes "isCloudEE env"
  shows "(evaluations_ids payload \<noteq> [] \<longrightarrow>
           (\<exists>i \<in> set (evaluations_ids payload).
              filter is_check (trace (delete_evaluations env payload request))
                = [CheckActionAccess (user_id request) (Object_ref i ''evaluation'')
                     DELETE_EVALUATION]))
       \<and> (list_ex is_compare (trace (fetch_evaluation_scenarios_comparison env s request)) \<longrightarrow>
           filter is_check (trace (fetch_evaluation_scenarios_comparison env s request))
             = map (view_check (user_id request)) (split CHR '','' s))"
proof (intro conjI impI)
  assume "evaluations_ids payload \<noteq> []"
  with assms show "\<exists>i \<in> set (evaluations_ids payload).
      filter is_check (trace (delete_evaluations env payload request))
        = [CheckActionAccess (user_id request) (Object_ref i ''evaluation'') DELETE_EVALUATION]"
    by (rule delete_evaluations_checks)
next
  assume "list_ex is_compare (trace (fetch_evaluation_scenarios_comparison env s request))"
  from comparison_trace [OF assms this]
  show "filter is_check (trace (fetch_evaluation_scenarios_comparison env s request))
          = map (view_check (user_id request)) (split CHR '','' s)"
    by (simp add: view_check_def filter_id_conv)
qed

theorem delete_checks_one_id_witness:
  "isCloudEE (sample_env True True)
   \<and> [''evaluation-1'', ''evaluation-2'', ''evaluation-3''] \<noteq> []
   \<and> (\<exists>i \<in> set [''evaluation-1'', ''evaluation-2'', ''evaluation-3''].
         filter is_check (trace (delete_evaluations (sample_env True True)
            \<lparr>evaluations_ids = [''evaluation-1'', ''evaluation-2'', ''evaluation-3'']\<rparr> sample_request))
           = [CheckActionAccess (user_id sample_request) (Object_ref i ''evaluation'')
                DELETE_EVALUATION])
   \<and> list_ex is_compare (trace (fetch_evaluation_scenarios_comparison (sample_env True True)
         ''evaluation-1,evaluation-2'' sample_request))
   \<and> filter is_check (trace (fetch_evaluation_scenarios_comparison (sample_env True True)
         ''evaluation-1,evaluation-2'' sample_request))
       = map (view_check (user_id sample_request)) (split CHR '','' ''evaluation-1,evaluation-2'')"
proof -
  have h1: "isCloudEE (sample_env True True)"
    by (simp add: sample_env_def)
  have h2: "list_ex is_compare (trace (fetch_evaluation_scenarios_comparison (sample_env True True)
         ''evaluation-1,evaluation-2'' sample_request))"
    by (simp add: run_defs fetch_evaluation_scenarios_comparison_def
        fetch_evaluation_scenarios_comparison_body_def access_gate_def io_defs Let_def sample_defs)
  from delete_checks_one_id [OF h1,
      of "\<lparr>evaluations_ids = [''evaluation-1'', ''evaluation-2'', ''evaluation-3'']\<rparr>"
         sample_request "''evaluation-1,evaluation-2''"] h1 h2
  show ?thesis by simp
qed

section \<open>Refused permission checks\<close>

lemma denied_in_append:
  "denied_in env h (xs @ ys) = (denied_in env h xs \<or> denied_in env (h @ xs) ys)"
  by (induction xs arbitrary: h) auto

lemma never_deniedD:
  "never_denied env m \<Longrightarrow> m w = (res, w') \<Longrightarrow>
   \<exists>cs. calls w' = calls w @ cs \<and> \<not> denied_in env (calls w) cs"
  unfolding never_denied_def by blast

lemma answers_denialD:
  "answers_denial env m \<Longrightarrow> m w = (res, w') \<Longrightarrow>
   \<exists>cs. calls w' = calls w @ cs \<and>
     (denied_in env (calls w) cs \<longrightarrow> res = Inr (Obj (JSONResponse error_msg 403)))"
  unfolding answers_denial_def by blast

lemma never_denied_return: "never_denied env (return_io x)"
  by (simp add: never_denied_def return_io_def)

lemma never_denied_raise: "never_denied env (raise_io e)"
  by (simp add: never_denied_def raise_io_def)

lemma never_denied_invoke: "\<not> is_check c \<Longrightarrow> never_denied env (invoke c f)"
  by (cases c) (auto simp add: never_denied_def invoke_def)

lemma never_denied_random_choice: "never_denied env (random_choice env xs)"
  by (auto simp add: never_denied_def random_choice_def split: if_splits)

lemma never_denied_getattr: "never_denied env (getattr obj field name)"
  by (cases obj) (simp_all add: getattr_def never_denied_return never_denied_raise)

lemma never_denied_bind:
  assumes "never_denied env m" and "\<And>x. never_denied env (f x)"
  shows "never_denied env (bind_io m f)"
  unfolding never_denied_def
proof (intro allI impI)
  fix w res w'
  assume run: "bind_io m f w = (res, w')"
  obtain r1 w1 where m: "m w = (r1, w1)" by (cases "m w") auto
  from never_deniedD [OF assms(1) m]
  obtain cs1 where c1: "calls w1 = calls w @ cs1" "\<not> denied_in env (calls w) cs1"
    by blast
  show "\<exists>cs. calls w' = calls w @ cs \<and> \<not> denied_in env (calls w) cs"
  proof (cases r1)
    case (Inl e)
    with m run have "w' = w1" by (simp add: bind_io_def)
    with c1 show ?thesis by blast
  next
    case (Inr x)
    with m run have "f x w1 = (res, w')" by (simp add: bind_io_def)
    from never_deniedD [OF assms(2) this]
    obtain cs2 where "calls w' = calls w1 @ cs2" "\<not> denied_in env (calls w1) cs2"
      by blast
    with c1 have "calls w' = calls w @ (cs1 @ cs2) \<and> \<not> denied_in env (calls w) (cs1 @ cs2)"
      by (simp add: denied_in_append)
    then show ?thesis by blast
  qed
qed

lemma never_denied_create_loop: "never_denied env (create_loop env payload request vs acc)"
  by (induction vs arbitrary: acc)
     (simp_all add: never_denied_return never_denied_bind never_denied_invoke)

lemma answers_denial_return: "answers_denial env (return_io x)"
  by (simp add: answers_denial_def return_io_def)

lemma answers_denial_raise: "answers_denial env (raise_io e)"
  by (simp add: answers_denial_def raise_io_def)

lemma answers_denial_bind:
  assumes "never_denied env m" and "\<And>x. answers_denial env (f x)"
  shows "answers_denial env (bind_io m f)"
  unfolding answers_denial_def
proof (intro allI impI)
  fix w res w'
  assume run: "bind_io m f w = (res, w')"
  obtain r1 w1 where m: "m w = (r1, w1)" by (cases "m w") auto
  from never_deniedD [OF assms(1) m]
  obtain cs1 where c1: "calls w1 = calls w @ cs1" "\<not> denied_in env (calls w) cs1"
    by blast
  show "\<exists>cs. calls w' = calls w @ cs \<and>
          (denied_in env (calls w) cs \<longrightarrow> res = Inr (Obj (JSONResponse error_msg 403)))"
  proof (cases r1)
    case (Inl e)
    with m run have "w' = w1" by (simp add: bind_io_def)
    with c1 show ?thesis by blast
  next
    case (Inr x)
    with m run have "f x w1 = (res, w')" by (simp add: bind_io_def)
    from answers_denialD [OF assms(2) this]
    obtain cs2 where "calls w' = calls w1 @ cs2"
      "denied_in env (calls w1) cs2 \<longrightarrow> res = Inr (Obj (JSONResponse error_msg 403))"
      by blast
    with c1 have "calls w' = calls w @ (cs1 @ cs2) \<and>
        (denied_in env (calls w) (cs1 @ cs2) \<longrightarrow> res = Inr (Obj (JSONResponse error_msg 403)))"
      by (simp add: denied_in_append)
    then show ?thesis by blast
  qed
qed

lemma answers_denial_gate:
  assumes "answers_denial env rest"
  shows "answers_denial env (access_gate env uid tgt perm rest)"
  unfolding answers_denial_def
proof (intro allI impI)
  fix w res w'
  let ?c = "CheckActionAccess uid tgt perm"
  assume run: "access_gate env uid tgt perm rest w = (res, w')"
  show "\<exists>cs. calls w' = calls w @ cs \<and>
          (denied_in env (calls w) cs \<longrightarrow> res = Inr (Obj (JSONResponse error_msg 403)))"
  proof (cases "check_action_access env (calls w) uid tgt perm")
    case (Inl e)
    with run have "calls w' = calls w @ [?c] \<and> \<not> denied_in env (calls w) [?c]"
      by (auto simp add: access_gate_def io_defs)
    then show ?thesis by blast
  next
    case (Inr b)
    show ?thesis
    proof (cases b)
      case False
      with Inr run have "calls w' = calls w @ [?c] \<and> res = Inr (Obj (JSONResponse error_msg 403))"
        by (auto simp add: access_gate_def io_defs)
      then show ?thesis by blast
    next
      case True
      with Inr run have "rest (w\<lparr>calls := calls w @ [?c]\<rparr>) = (res, w')"
        by (simp add: access_gate_def io_defs)
      from answers_denialD [OF assms this]
      obtain cs where "calls w' = calls w @ [?c] @ cs"
        "denied_in env (calls w @ [?c]) cs \<longrightarrow> res = Inr (Obj (JSONResponse error_msg 403))"
        by auto
      with Inr True have "calls w' = calls w @ (?c # cs) \<and>
        (denied_in env (calls w) (?c # cs) \<longrightarrow> res = Inr (Obj (JSONResponse error_msg 403)))"
        by simp
      then show ?thesis by blast
    qed
  qed
qed

lemma answers_denial_cloud_gate:
  "answers_denial env rest \<Longrightarrow> answers_denial env (cloud_gate env uid tgt perm rest)"
  by (simp add: cloud_gate_def answers_denial_gate)

lemma answers_denial_check_each:
  "answers_denial env rest \<Longrightarrow> answers_denial env (check_each env uid ids rest)"
  by (induction ids) (simp_all add: answers_denial_gate)

text \<open>An \<^verbatim>\<open>except\<close> clause that calls no collaborator leaves a returned 403 as it is.\<close>

lemma answers_denial_try:
  assumes "answers_denial env m" and "\<And>e w. snd (h e w) = w"
  shows "answers_denial env (try_except m h)"
  unfolding answers_denial_def
proof (intro allI impI)
  fix w res w'
  assume run: "try_except m h w = (res, w')"
  obtain r1 w1 where m: "m w = (r1, w1)" by (cases "m w") auto
  from answers_denialD [OF assms(1) m]
  obtain cs where cs: "calls w1 = calls w @ cs"
    "denied_in env (calls w) cs \<longrightarrow> r1 = Inr (Obj (JSONResponse error_msg 403))"
    by blast
  from m run assms(2) have "w' = w1 \<and> (r1 = Inr (Obj (JSONResponse error_msg 403)) \<longrightarrow> res = r1)"
    by (cases r1) (auto simp add: try_except_def dest: arg_cong [where f = snd])
  with cs show "\<exists>cs. calls w' = calls w @ cs \<and>
          (denied_in env (calls w) cs \<longrightarrow> res = Inr (Obj (JSONResponse error_msg 403)))"
    by auto
qed

lemmas denial_intros =
  never_denied_return never_denied_raise never_denied_invoke never_denied_random_choice
  never_denied_getattr never_denied_bind never_denied_create_loop
  answers_denial_return answers_denial_raise answers_denial_bind answers_denial_gate
  answers_denial_cloud_gate answers_denial_check_each

lemma body_answers_denial: "answers_denial env (route_body env q r)"
proof (cases q)
  case (GET_by_resource a t ids)
  then show ?thesis
    by (simp add: fetch_evaluation_ids_body_def denial_intros)
next
  case (POST_create p)
  then show ?thesis
    by (auto simp add: create_evaluation_body_def intro!: denial_intros split: prod.splits)
next
  case (GET_status i)
  then show ?thesis
    by (simp add: fetch_evaluation_status_body_def denial_intros)
next
  case (GET_results i)
  then show ?thesis
    by (simp add: fetch_evaluation_results_body_def denial_intros)
next
  case (GET_scenarios i)
  then show ?thesis
    by (auto simp add: fetch_evaluation_scenarios_body_def not_found_def
        intro!: denial_intros split: option.splits)
next
  case (GET_list a)
  then show ?thesis
    by (simp add: fetch_list_evaluations_body_def denial_intros)
next
  case (GET_single i)
  then show ?thesis
    by (auto simp add: fetch_evaluation_body_def not_found_def
        intro!: denial_intros split: option.splits)
next
  case (DELETE_evaluations p)
  then show ?thesis
    by (simp add: delete_evaluations_body_def Let_def denial_intros)
next
  case (GET_comparison ids)
  then show ?thesis
    by (simp add: fetch_evaluation_scenarios_comparison_body_def Let_def denial_intros)
qed

lemma route_answers_denial: "answers_denial env (route env q r)"
  using body_answers_denial [of env q r]
  by (cases q)
     (simp_all add: handler_defs create_evaluation_except_def answers_denial_try raise_io_def
        split: exn.splits)

text \<open>
  C3: in cloud mode, for every handler and every request, when a call of
  \<^verbatim>\<open>check_action_access\<close> made for the request is answered \<^verbatim>\<open>False\<close>, the response has
  status 403 and the fixed detail message.
\<close>

theorem permission_denied_is_403:
  assumes "isCloudEE env" and "access_denied env (trace (route env q r))"
  shows "respond (outcome (route env q r)) = \<lparr>status_code = 403, body = Detail error_msg\<rparr>"
proof -
  obtain res w' where run: "route env q r start = (res, w')"
    by (cases "route env q r start") auto
  from answers_denialD [OF route_answers_denial run]
  obtain cs where "calls w' = calls start @ cs"
    "denied_in env (calls start) cs \<longrightarrow> res = Inr (Obj (JSONResponse error_msg 403))"
    by blast
  with assms(2) run have "res = Inr (Obj (JSONResponse error_msg 403))"
    by (simp add: access_denied_def trace_def run_def start_def)
  with run show ?thesis
    by (simp add: outcome_def run_def)
qed

theorem permission_denied_is_403_witness:
  "isCloudEE (sample_env True False)
   \<and> access_denied (sample_env True False)
       (trace (route (sample_env True False) (GET_single ''evaluation-1'') sample_request))
   \<and> respond (outcome (route (sample_env True False) (GET_single ''evaluation-1'') sample_request))
       = \<lparr>status_code = 403, body = Detail error_msg\<rparr>"
proof -
  have h1: "isCloudEE (sample_env True False)"
    by (simp add: sample_env_def)
  have h2: "access_denied (sample_env True False)
       (trace (route (sample_env True False) (GET_single ''evaluation-1'') sample_request))"
    by (simp add: run_defs access_denied_def fetch_evaluation_def fetch_evaluation_body_def
        cloud_gate_def access_gate_def io_defs sample_defs)
  from permission_denied_is_403 [OF h1 h2] h1 h2 show ?thesis by simp
qed

section \<open>Creating evaluations\<close>

lemma create_loop_returns:
  "create_loop env p r vs acc w = (Inr evs, w') \<Longrightarrow>
   \<exists>new. evs = acc @ new \<and> length new = length vs \<and> draws w' = draws w
     \<and> calls w' = calls w @ loop_calls p r vs new
     \<and> (\<forall>k<length vs.
           create_new_evaluation env (calls w @ loop_calls p r (take k vs) (take k new))
             (app_id p) (project_id r) (vs ! k) (testset_id p) = Inr (new ! k))"
proof (induction vs arbitrary: acc w)
  case Nil
  then show ?case by (simp add: return_io_def)
next
  case (Cons v vs)
  from Cons.prems obtain e where
    e: "create_new_evaluation env (calls w) (app_id p) (project_id r) v (testset_id p) = Inr e"
    by (cases "create_new_evaluation env (calls w) (app_id p) (project_id r) v (testset_id p)")
       (auto simp add: io_defs)
  let ?w2 = "w\<lparr>calls := calls w @ [create_call p r v, delay_call p r v e]\<rparr>"
  from Cons.prems e have "create_loop env p r vs (acc @ [e]) ?w2 = (Inr evs, w')"
    by (auto simp add: io_defs create_call_def delay_call_def split: sum.splits)
  from Cons.IH [OF this] obtain new where new:
    "evs = (acc @ [e]) @ new" "length new = length vs" "draws w' = draws ?w2"
    "calls w' = calls ?w2 @ loop_calls p r vs new"
    "\<forall>k<length vs.
       create_new_evaluation env (calls ?w2 @ loop_calls p r (take k vs) (take k new))
         (app_id p) (project_id r) (vs ! k) (testset_id p) = Inr (new ! k)"
    by blast
  have "\<forall>k<length (v # vs).
          create_new_evaluation env (calls w @ loop_calls p r (take k (v # vs)) (take k (e # new)))
            (app_id p) (project_id r) ((v # vs) ! k) (testset_id p) = Inr ((e # new) ! k)"
  proof (intro allI impI)
    fix k assume "k < length (v # vs)"
    then show "create_new_evaluation env
            (calls w @ loop_calls p r (take k (v # vs)) (take k (e # new)))
            (app_id p) (project_id r) ((v # vs) ! k) (testset_id p) = Inr ((e # new) ! k)"
      using e new(5) by (cases k) simp_all
  qed
  with new have "evs = acc @ (e # new) \<and> length (e # new) = length (v # vs) \<and> draws w' = draws w
     \<and> calls w' = calls w @ loop_calls p r (v # vs) (e # new)
     \<and> (\<forall>k<length (v # vs).
          create_new_evaluation env (calls w @ loop_calls p r (take k (v # vs)) (take k (e # new)))
            (app_id p) (project_id r) ((v # vs) ! k) (testset_id p) = Inr ((e # new) ! k))"
    by simp
  then show ?case by blast
qed

lemma create_loop_raises:
  "create_loop env p r vs acc w = (Inl x, w') \<Longrightarrow>
   \<exists>k<length vs. \<exists>made. length made = k \<and>
     (calls w' = calls w @ loop_calls p r (take k vs) made @ [create_call p r (vs ! k)]
      \<or> (\<exists>e. calls w' = calls w @ loop_calls p r (take k vs) made
                  @ [create_call p r (vs ! k), delay_call p r (vs ! k) e]))"
proof (induction vs arbitrary: acc w)
  case Nil
  then show ?case by (simp add: return_io_def)
next
  case (Cons v vs)
  show ?case
  proof (cases "create_new_evaluation env (calls w) (app_id p) (project_id r) v (testset_id p)")
    case (Inl y)
    with Cons.prems have
      "calls w' = calls w @ loop_calls p r (take 0 (v # vs)) [] @ [create_call p r ((v # vs) ! 0)]"
      by (auto simp add: io_defs create_call_def)
    then show ?thesis by blast
  next
    case created: (Inr e)
    show ?thesis
    proof (cases "evaluate_delay env (calls w @ [create_call p r v]) (job_for p r v e)")
      case (Inl y)
      with created Cons.prems have "calls w' = calls w @ loop_calls p r (take 0 (v # vs)) []
           @ [create_call p r ((v # vs) ! 0), delay_call p r ((v # vs) ! 0) e]"
        by (auto simp add: io_defs create_call_def delay_call_def)
      then show ?thesis by blast
    next
      case (Inr u)
      let ?w2 = "w\<lparr>calls := calls w @ [create_call p r v, delay_call p r v e]\<rparr>"
      from Cons.prems created Inr
      have "create_loop env p r vs (acc @ [e]) ?w2 = (Inl x, w')"
        by (auto simp add: io_defs create_call_def delay_call_def)
      from Cons.IH [OF this] obtain k made where km: "k < length vs" "length made = k"
        "calls w' = calls ?w2 @ loop_calls p r (take k vs) made @ [create_call p r (vs ! k)]
         \<or> (\<exists>e'. calls w' = calls ?w2 @ loop_calls p r (take k vs) made
                  @ [create_call p r (vs ! k), delay_call p r (vs ! k) e'])"
        by blast
      then have "Suc k < length (v # vs) \<and> length (e # made) = Suc k \<and>
        (calls w' = calls w @ loop_calls p r (take (Suc k) (v # vs)) (e # made)
            @ [create_call p r ((v # vs) ! Suc k)]
         \<or> (\<exists>e'. calls w' = calls w @ loop_calls p r (take (Suc k) (v # vs)) (e # made)
                  @ [create_call p r ((v # vs) ! Suc k), delay_call p r ((v # vs) ! Suc k) e']))"
        by auto
      then show ?thesis by blast
    qed
  qed
qed

lemma filter_create_loop_calls:
  "length es = length vs \<Longrightarrow> filter is_create (loop_calls p r vs es) = map (create_call p r) vs"
  by (induction vs es rule: list_induct2') (simp_all add: create_call_def delay_call_def)

lemma filter_delay_loop_calls:
  "length es = length vs \<Longrightarrow>
   filter is_delay (loop_calls p r vs es) = map2 (delay_call p r) vs es"
  by (induction vs es rule: list_induct2') (simp_all add: create_call_def delay_call_def)

lemma filter_calls_before_loop:
  "filter is_create (calls_before_loop env p r) = []"
  "filter is_delay (calls_before_loop env p r) = []"
  by (simp_all add: calls_before_loop_def)

text \<open>
  The body either stops before the loop, with no evaluation created and no plain data
  returned, or runs the loop and what follows it after exactly the calls before the loop.
\<close>

lemma body_before_loop:
  "create_evaluation_body env p r start = (res, w') \<Longrightarrow>
   (\<not> list_ex is_create (calls w') \<and> \<not> list_ex is_update (calls w') \<and> (\<forall>v. res \<noteq> Inr (Plain v)))
   \<or> bind_io (create_loop env p r (variant_ids p) [])
        (\<lambda>evaluations.
           bind_io
             (invoke (UpdateLastModifiedBy (user_id r) (app_id p) ''app'' (project_id r))
                (\<lambda>h. update_last_modified_by env h (user_id r) (app_id p) ''app'' (project_id r)))
             (\<lambda>_. return_io (Plain (Evaluations evaluations))))
        \<lparr>calls = calls_before_loop env p r, draws = 0\<rparr> = (res, w')"
  by (auto simp add: create_evaluation_body_def cloud_gate_def access_gate_def calls_before_loop_def
      start_def return_io_def raise_io_def invoke_def bind_io_def [where m = "invoke c f" for c f]
      split: sum.splits if_splits prod.splits)

lemma create_evaluation_run:
  "create_evaluation_body env p r start = (res, w') \<Longrightarrow>
   trace (create_evaluation env p r) = calls w' \<and>
   outcome (create_evaluation env p r)
     = (case res of Inl e \<Rightarrow> Inl (converted env (POST_create p) e) | Inr x \<Rightarrow> Inr x)"
  by (cases res; cases "projl res")
     (simp_all add: run_defs create_evaluation_def create_evaluation_except_def try_except_def
        raise_io_def converted_def)

text \<open>
  C4: when \<^verbatim>\<open>create_evaluation\<close> succeeds for a payload with N variant ids, it has called
  \<^verbatim>\<open>create_new_evaluation\<close> exactly N times, once per variant id in their order, has
  enqueued exactly N jobs, one per variant id and carrying the id of the evaluation
  created for it, and returns the list of the N evaluations that the service created.
\<close>

theorem create_evaluation_success:
  assumes "outcome (create_evaluation env p r) = Inr (Plain v)"
  shows "\<exists>evs. v = Evaluations evs \<and> length evs = length (variant_ids p)
     \<and> trace (create_evaluation env p r)
         = calls_before_loop env p r @ loop_calls p r (variant_ids p) evs
           @ [UpdateLastModifiedBy (user_id r) (app_id p) ''app'' (project_id r)]
     \<and> filter is_create (trace (create_evaluation env p r)) = map (create_call p r) (variant_ids p)
     \<and> filter is_delay (trace (create_evaluation env p r))
         = map2 (delay_call p r) (variant_ids p) evs
     \<and> (\<forall>k<length (variant_ids p).
           create_new_evaluation env
             (calls_before_loop env p r @ loop_calls p r (take k (variant_ids p)) (take k evs))
             (app_id p) (project_id r) (variant_ids p ! k) (testset_id p) = Inr (evs ! k))"
proof -
  let ?w0 = "\<lparr>calls = calls_before_loop env p r, draws = 0\<rparr>"
  let ?u = "UpdateLastModifiedBy (user_id r) (app_id p) ''app'' (project_id r)"
  obtain res w' where body: "create_evaluation_body env p r start = (res, w')"
    by (cases "create_evaluation_body env p r start") auto
  from create_evaluation_run [OF body] assms
  have res: "res = Inr (Plain v)" and tr: "trace (create_evaluation env p r) = calls w'"
    by (auto split: sum.splits)
  from body_before_loop [OF body] res
  have after: "bind_io (create_loop env p r (variant_ids p) [])
        (\<lambda>evaluations.
           bind_io
             (invoke ?u
                (\<lambda>h. update_last_modified_by env h (user_id r) (app_id p) ''app'' (project_id r)))
             (\<lambda>_. return_io (Plain (Evaluations evaluations)))) ?w0 = (Inr (Plain v), w')"
    by auto
  obtain lres w1 where loop: "create_loop env p r (variant_ids p) [] ?w0 = (lres, w1)"
    by (cases "create_loop env p r (variant_ids p) [] ?w0") auto
  with after obtain evs where
    evs: "lres = Inr evs" "v = Evaluations evs" "calls w' = calls w1 @ [?u]"
    by (cases lres) (auto simp add: io_defs split: sum.splits)
  from create_loop_returns [of env p r "variant_ids p" "[]" ?w0 evs w1] loop evs(1)
  have shape: "length evs = length (variant_ids p)"
    "calls w1 = calls_before_loop env p r @ loop_calls p r (variant_ids p) evs"
    "\<forall>k<length (variant_ids p).
           create_new_evaluation env
             (calls_before_loop env p r @ loop_calls p r (take k (variant_ids p)) (take k evs))
             (app_id p) (project_id r) (variant_ids p ! k) (testset_id p) = Inr (evs ! k)"
    by auto
  have whole: "trace (create_evaluation env p r)
         = calls_before_loop env p r @ loop_calls p r (variant_ids p) evs @ [?u]"
    using tr evs(3) shape(2) by simp
  have creates: "filter is_create (trace (create_evaluation env p r))
      = map (create_call p r) (variant_ids p)"
    by (simp add: whole filter_calls_before_loop filter_create_loop_calls shape(1))
  have delays: "filter is_delay (trace (create_evaluation env p r))
      = map2 (delay_call p r) (variant_ids p) evs"
    by (simp add: whole filter_calls_before_loop filter_delay_loop_calls shape(1))
  from evs(2) shape(1) whole creates delays shape(3) show ?thesis by blast
qed

theorem create_evaluation_success_witness:
  "outcome (create_evaluation (sample_env False True) (sample_payload [''variant-1'', ''variant-2'']) sample_request)
     = Inr (Plain (Evaluations [sample_evaluation ''evaluation-of-variant-1'',
                                sample_evaluation ''evaluation-of-variant-2'']))
   \<and> (\<exists>evs. (Evaluations [sample_evaluation ''evaluation-of-variant-1'',
                                sample_evaluation ''evaluation-of-variant-2'']) = Evaluations evs \<and> length evs = length (variant_ids (sample_payload [''variant-1'', ''variant-2'']))
     \<and> trace (create_evaluation (sample_env False True) (sample_payload [''variant-1'', ''variant-2'']) sample_request)
         = calls_before_loop (sample_env False True) (sample_payload [''variant-1'', ''variant-2'']) sample_request @ loop_calls (sample_payload [''variant-1'', ''variant-2'']) sample_request (variant_ids (sample_payload [''variant-1'', ''variant-2''])) evs
           @ [UpdateLastModifiedBy (user_id sample_request) (app_id (sample_payload [''variant-1'', ''variant-2''])) ''app'' (project_id sample_request)]
     \<and> filter is_create (trace (create_evaluation (sample_env False True) (sample_payload [''variant-1'', ''variant-2'']) sample_request)) = map (create_call (sample_payload [''variant-1'', ''variant-2'']) sample_request) (variant_ids (sample_payload [''variant-1'', ''variant-2'']))
     \<and> filter is_delay (trace (create_evaluation (sample_env False True) (sample_payload [''variant-1'', ''variant-2'']) sample_request))
         = map2 (delay_call (sample_payload [''variant-1'', ''variant-2'']) sample_request) (variant_ids (sample_payload [''variant-1'', ''variant-2''])) evs
     \<and> (\<forall>k<length (variant_ids (sample_payload [''variant-1'', ''variant-2''])).
           create_new_evaluation (sample_env False True)
             (calls_before_loop (sample_env False True) (sample_payload [''variant-1'', ''variant-2'']) sample_request @ loop_calls (sample_payload [''variant-1'', ''variant-2'']) sample_request (take k (variant_ids (sample_payload [''variant-1'', ''variant-2'']))) (take k evs))
             (app_id (sample_payload [''variant-1'', ''variant-2''])) (project_id sample_request) (variant_ids (sample_payload [''variant-1'', ''variant-2'']) ! k) (testset_id (sample_payload [''variant-1'', ''variant-2''])) = Inr (evs ! k)))"
proof -
  have h: "outcome (create_evaluation (sample_env False True) (sample_payload [''variant-1'', ''variant-2'']) sample_request)
     = Inr (Plain (Evaluations [sample_evaluation ''evaluation-of-variant-1'',
                                sample_evaluation ''evaluation-of-variant-2'']))"
    by (simp add: run_defs create_evaluation_def create_evaluation_body_def cloud_gate_def
        io_defs sample_defs)
  show ?thesis
    by (intro conjI) (rule h, rule create_evaluation_success [OF h])
qed

text \<open>
  C10: \<^verbatim>\<open>create_evaluation\<close> is not atomic. When its loop fails at a variant id (an
  evaluation was asked for and \<^verbatim>\<open>update_last_modified_by\<close> was never reached), the
  evaluations created and the jobs enqueued for the variant ids before it stay as they
  are: the failing call is the last call of the request, nothing is undone, and the
  handler raises an \<^verbatim>\<open>HTTPException\<close>.
\<close>

theorem create_evaluation_not_atomic:
  assumes "list_ex is_create (trace (create_evaluation env p r))"
    and "\<not> list_ex is_update (trace (create_evaluation env p r))"
  shows "\<exists>k<length (variant_ids p). \<exists>made. length made = k
     \<and> (trace (create_evaluation env p r)
          = calls_before_loop env p r @ loop_calls p r (take k (variant_ids p)) made
            @ [create_call p r (variant_ids p ! k)]
        \<or> (\<exists>e. trace (create_evaluation env p r)
          = calls_before_loop env p r @ loop_calls p r (take k (variant_ids p)) made
            @ [create_call p r (variant_ids p ! k), delay_call p r (variant_ids p ! k) e]))
     \<and> (\<exists>n d. outcome (create_evaluation env p r) = Inl (HTTPException n d))"
proof -
  let ?w0 = "\<lparr>calls = calls_before_loop env p r, draws = 0\<rparr>"
  let ?u = "UpdateLastModifiedBy (user_id r) (app_id p) ''app'' (project_id r)"
  obtain res w' where body: "create_evaluation_body env p r start = (res, w')"
    by (cases "create_evaluation_body env p r start") auto
  note run = create_evaluation_run [OF body]
  from body_before_loop [OF body] assms(1) run
  have after: "bind_io (create_loop env p r (variant_ids p) [])
        (\<lambda>evaluations.
           bind_io
             (invoke ?u
                (\<lambda>h. update_last_modified_by env h (user_id r) (app_id p) ''app'' (project_id r)))
             (\<lambda>_. return_io (Plain (Evaluations evaluations)))) ?w0 = (res, w')"
    by auto
  obtain lres w1 where loop: "create_loop env p r (variant_ids p) [] ?w0 = (lres, w1)"
    by (cases "create_loop env p r (variant_ids p) [] ?w0") auto
  have "\<exists>x. lres = Inl x"
  proof (cases lres)
    case (Inr evs)
    with after loop have "calls w' = calls w1 @ [?u]"
      by (auto simp add: io_defs split: sum.splits)
    with run assms(2) show ?thesis by simp
  qed simp
  then obtain x where x: "lres = Inl x" ..
  with after loop have end': "res = Inl x" "w' = w1"
    by (auto simp add: io_defs)
  from create_loop_raises [of env p r "variant_ids p" "[]" ?w0 x w1] loop x
  obtain k made where km: "k < length (variant_ids p)" "length made = k"
     "calls w1 = calls_before_loop env p r @ loop_calls p r (take k (variant_ids p)) made
            @ [create_call p r (variant_ids p ! k)]
      \<or> (\<exists>e. calls w1 = calls_before_loop env p r @ loop_calls p r (take k (variant_ids p)) made
            @ [create_call p r (variant_ids p ! k), delay_call p r (variant_ids p ! k) e])"
    by auto
  have "\<exists>n d. outcome (create_evaluation env p r) = Inl (HTTPException n d)"
    using run end' by (simp add: converted_def)
  with km run end'(2) show ?thesis by auto
qed

theorem create_evaluation_not_atomic_witness:
  "list_ex is_create (trace (create_evaluation (sample_env False True)
      (sample_payload [''variant-1'', ''variant-bad'', ''variant-3'']) sample_request))
   \<and> \<not> list_ex is_update (trace (create_evaluation (sample_env False True)
      (sample_payload [''variant-1'', ''variant-bad'', ''variant-3'']) sample_request))
   \<and> trace (create_evaluation (sample_env False True)
      (sample_payload [''variant-1'', ''variant-bad'', ''variant-3'']) sample_request)
     = calls_before_loop (sample_env False True)
         (sample_payload [''variant-1'', ''variant-bad'', ''variant-3'']) sample_request
       @ loop_calls (sample_payload [''variant-1'', ''variant-bad'', ''variant-3'']) sample_request
           [''variant-1''] [sample_evaluation ''evaluation-of-variant-1'']
       @ [create_call (sample_payload [''variant-1'', ''variant-bad'', ''variant-3'']) sample_request
            ''variant-bad'']
   \<and> (\<exists>k<length (variant_ids (sample_payload [''variant-1'', ''variant-bad'', ''variant-3''])).
       \<exists>made. length made = k
     \<and> (trace (create_evaluation (sample_env False True)
            (sample_payload [''variant-1'', ''variant-bad'', ''variant-3'']) sample_request)
          = calls_before_loop (sample_env False True)
              (sample_payload [''variant-1'', ''variant-bad'', ''variant-3'']) sample_request
            @ loop_calls (sample_payload [''variant-1'', ''variant-bad'', ''variant-3''])
                sample_request
                (take k (variant_ids (sample_payload [''variant-1'', ''variant-bad'', ''variant-3''])))
                made
            @ [create_call (sample_payload [''variant-1'', ''variant-bad'', ''variant-3''])
                 sample_request
                 (variant_ids (sample_payload [''variant-1'', ''variant-bad'', ''variant-3'']) ! k)]
        \<or> (\<exists>e. trace (create_evaluation (sample_env False True)
            (sample_payload [''variant-1'', ''variant-bad'', ''variant-3'']) sample_request)
          = calls_before_loop (sample_env False True)
              (sample_payload [''variant-1'', ''variant-bad'', ''variant-3'']) sample_request
            @ loop_calls (sample_payload [''variant-1'', ''variant-bad'', ''variant-3''])
                sample_request
                (take k (variant_ids (sample_payload [''variant-1'', ''variant-bad'', ''variant-3''])))
                made
            @ [create_call (sample_payload [''variant-1'', ''variant-bad'', ''variant-3''])
                 sample_request
                 (variant_ids (sample_payload [''variant-1'', ''variant-bad'', ''variant-3'']) ! k),
               delay_call (sample_payload [''variant-1'', ''variant-bad'', ''variant-3''])
                 sample_request
                 (variant_ids (sample_payload [''variant-1'', ''variant-bad'', ''variant-3'']) ! k)
                 e]))
     \<and> (\<exists>n d. outcome (create_evaluation (sample_env False True)
            (sample_payload [''variant-1'', ''variant-bad'', ''variant-3'']) sample_request)
          = Inl (HTTPException n d)))"
proof -
  let ?p = "sample_payload [''variant-1'', ''variant-bad'', ''variant-3'']"
  have t: "trace (create_evaluation (sample_env False True) ?p sample_request)
     = calls_before_loop (sample_env False True) ?p sample_request
       @ loop_calls ?p sample_request [''variant-1''] [sample_evaluation ''evaluation-of-variant-1'']
       @ [create_call ?p sample_request ''variant-bad'']"
    by (simp add: run_defs create_evaluation_def create_evaluation_body_def cloud_gate_def
        create_evaluation_except_def calls_before_loop_def create_call_def delay_call_def
        io_defs sample_defs)
  have h1: "list_ex is_create (trace (create_evaluation (sample_env False True) ?p sample_request))"
    unfolding t by (simp add: create_call_def)
  have h2: "\<not> list_ex is_update (trace (create_evaluation (sample_env False True) ?p sample_request))"
    unfolding t by (simp add: calls_before_loop_def create_call_def delay_call_def)
  show ?thesis
    by (intro conjI) (rule h1, rule h2, rule t, rule create_evaluation_not_atomic [OF h1 h2])
qed

end
